theory Spec2Isabelle
  imports Complex_Main
begin

section \<open>Python values\<close>

text \<open>
  A Python \<open>str\<close> is a sequence of Unicode code points, so a string is a list of
  code points here, not a list of bytes. \<open>ustr\<close> turns an ASCII literal into one.
\<close>

type_synonym codepoint = nat
type_synonym ustring = "codepoint list"

definition ustr :: "string \<Rightarrow> ustring" where
  "ustr s = map of_char s"

text \<open>
  A float is an IEEE double. \<open>Fin neg m e\<close> names the finite double whose value is
  \<open>\<plusminus> m / 10 ^ e\<close> (every finite double has such a decimal expansion); the arithmetic
  on doubles belongs to the language and is not defined here. The values a cell or an
  argument holds are text, a float (a blank cell is the float \<open>NaN\<close>), an integer, or
  \<open>None\<close>.
\<close>

datatype pyfloat = Fin bool nat nat | NaN | Inf bool

datatype pyval = PStr ustring | PFloat pyfloat | PInt int | PNone

datatype pyerror = PyError (err_str: ustring) (err_repr: ustring)
  \<comment> \<open>an exception, seen through \<open>str(e)\<close> and \<open>repr(e)\<close>\<close>

subsection \<open>The language and its libraries\<close>

text \<open>
  The program calls into the Unicode database, the float arithmetic of the language and
  the numeric parser of the table library. None of these is code of the program, and
  none is defined here: they are the fields of a record that every function of the
  program takes, and every theorem below holds for whatever these fields are.

  \<^item> \<open>isspace\<close>: the code points \<open>str.strip\<close> and \<open>str.split\<close> treat as whitespace;
  \<^item> \<open>isdigit\<close>: the code points the regular expression class \<open>\d\<close> matches;
  \<^item> \<open>upper\<close>: \<open>str.upper\<close>;
  \<^item> \<open>nfkd\<close>: \<open>unicodedata.normalize("NFKD", s)\<close>, and \<open>combining\<close>:
    \<open>unicodedata.combining\<close>;
  \<^item> \<open>float_of_text\<close>: \<open>float(s)\<close> of a string, \<open>None\<close> when it raises, and
    \<open>float_of_int\<close>: \<open>float(i)\<close> of an integer;
  \<^item> \<open>round_float\<close>: \<open>round(f)\<close>, \<open>None\<close> when it raises (for \<open>nan\<close> and \<open>inf\<close>);
  \<^item> \<open>float_near f r\<close>: the test \<open>abs(f - r) < 1e-9\<close> in double arithmetic;
  \<^item> \<open>str_float\<close>: \<open>str(f)\<close> of a float;
  \<^item> \<open>to_numeric\<close>: \<open>pd.to_numeric(column, errors="coerce")\<close> on a column of text.
\<close>

record pylib =
  isspace :: "codepoint \<Rightarrow> bool"
  isdigit :: "codepoint \<Rightarrow> bool"
  upper :: "ustring \<Rightarrow> ustring"
  nfkd :: "ustring \<Rightarrow> ustring"
  combining :: "codepoint \<Rightarrow> nat"
  float_of_text :: "ustring \<Rightarrow> pyfloat option"
  float_of_int :: "int \<Rightarrow> pyfloat option"
  round_float :: "pyfloat \<Rightarrow> int option"
  float_near :: "pyfloat \<Rightarrow> int \<Rightarrow> bool"
  str_float :: "pyfloat \<Rightarrow> ustring"
  to_numeric :: "ustring list \<Rightarrow> pyval list"

subsection \<open>Strings\<close>

definition strip :: "pylib \<Rightarrow> ustring \<Rightarrow> ustring" where
  \<comment> \<open>\<open>s.strip()\<close>\<close>
  "strip L s = rev (dropWhile (isspace L) (rev (dropWhile (isspace L) s)))"

fun split_aux :: "pylib \<Rightarrow> ustring \<Rightarrow> ustring \<Rightarrow> ustring list" where
  \<comment> \<open>\<open>cur\<close> is the word that is open\<close>
  "split_aux L cur [] = (if cur = [] then [] else [cur])"
| "split_aux L cur (c # cs) =
     (if isspace L c then (if cur = [] then [] else [cur]) @ split_aux L [] cs
      else split_aux L (cur @ [c]) cs)"

definition split :: "pylib \<Rightarrow> ustring \<Rightarrow> ustring list" where
  \<comment> \<open>\<open>s.split()\<close>: the words between runs of whitespace\<close>
  "split L s = split_aux L [] s"

fun join :: "ustring \<Rightarrow> ustring list \<Rightarrow> ustring" where
  \<comment> \<open>\<open>sep.join(xs)\<close>\<close>
  "join sep [] = []"
| "join sep [x] = x"
| "join sep (x # y # ys) = x @ sep @ join sep (y # ys)"

fun startswith :: "ustring \<Rightarrow> ustring \<Rightarrow> bool" where
  "startswith s [] = True"
| "startswith [] (p # ps) = False"
| "startswith (c # cs) (p # ps) = (c = p \<and> startswith cs ps)"

fun contains :: "ustring \<Rightarrow> ustring \<Rightarrow> bool" where
  \<comment> \<open>\<open>sub in s\<close>\<close>
  "contains [] sub = (sub = [])"
| "contains (c # cs) sub = (startswith (c # cs) sub \<or> contains cs sub)"

function replace :: "ustring \<Rightarrow> ustring \<Rightarrow> ustring \<Rightarrow> ustring" where
  \<comment> \<open>\<open>s.replace(old, new)\<close> for a pattern \<open>old\<close> that is not empty: the occurrences
      are taken from the left and do not overlap\<close>
  "replace [] old new = []"
| "replace (c # cs) old new =
     (if old \<noteq> [] \<and> startswith (c # cs) old
      then new @ replace (drop (length old) (c # cs)) old new
      else c # replace cs old new)"
  by pat_completeness auto
termination
  by (relation "measure (\<lambda>(s, old, new). length s)") (auto simp: Suc_diff_le)

subsection \<open>Text of a value\<close>

fun str_nat :: "nat \<Rightarrow> ustring" where
  "str_nat n = (if n < 10 then [0x30 + n] else str_nat (n div 10) @ [0x30 + n mod 10])"

declare str_nat.simps [simp del]

definition str_int :: "int \<Rightarrow> ustring" where
  \<comment> \<open>\<open>str(i)\<close> of an integer\<close>
  "str_int i = (if i < 0 then 0x2D # str_nat (nat (- i)) else str_nat (nat i))"

fun py_str :: "pylib \<Rightarrow> pyval \<Rightarrow> ustring" where
  \<comment> \<open>\<open>str(x)\<close>\<close>
  "py_str L (PStr s) = s"
| "py_str L (PFloat f) = str_float L f"
| "py_str L (PInt i) = str_int i"
| "py_str L PNone = ustr ''None''"

fun notna :: "pyval \<Rightarrow> bool" where
  \<comment> \<open>\<open>pd.notna(x)\<close>\<close>
  "notna (PFloat NaN) = False"
| "notna PNone = False"
| "notna _ = True"

fun py_float :: "pylib \<Rightarrow> pyval \<Rightarrow> pyfloat option" where
  \<comment> \<open>\<open>float(x)\<close>, \<open>None\<close> when it raises\<close>
  "py_float L (PStr s) = float_of_text L s"
| "py_float L (PFloat f) = Some f"
| "py_float L (PInt i) = float_of_int L i"
| "py_float L PNone = None"

section \<open>What the program reads from outside\<close>

text \<open>
  Besides the libraries, the program depends on the world: whether the logo file exists
  and can be drawn, whether the paragraph parser of the drawing library accepts the list
  text (it raises on malformed markup), what the web server answers, what the workbook
  reader returns, and the two URL functions of the standard library.
\<close>

datatype logo_file = LogoMissing | LogoUnreadable | LogoReadable

record response =
  ok :: bool
  content :: "nat list"

record environment =
  lib :: pylib
  logo :: logo_file
  markup_error :: "ustring \<Rightarrow> pyerror option"
  http_get :: "ustring \<Rightarrow> pyerror + response"
  url_base :: "ustring \<Rightarrow> ustring"
  quote :: "ustring \<Rightarrow> ustring"
  read_excel :: "nat list \<Rightarrow> pyerror + pyval list list"

section \<open>The spreadsheet normalizer\<close>

definition has_markers :: "environment \<Rightarrow> pyval list \<Rightarrow> bool" where
  \<comment> \<open>the test of \<open>find_header_row\<close> on one row of the raw grid\<close>
  "has_markers env row =
     (let joined = join (ustr '' '') (map (py_str (lib env)) row)
      in contains (upper (lib env) joined) (ustr ''DEMANDA'') \<and>
         contains (upper (lib env) joined) (ustr ''ARMADOR''))"

fun find_header_loop :: "environment \<Rightarrow> pyval list list \<Rightarrow> nat list \<Rightarrow> nat" where
  \<comment> \<open>the \<open>for\<close> loop over the indices \<open>is\<close>; falling out of it returns 0\<close>
  "find_header_loop env df_raw [] = 0"
| "find_header_loop env df_raw (i # is) =
     (if has_markers env (df_raw ! i) then i else find_header_loop env df_raw is)"

definition find_header_row :: "environment \<Rightarrow> pyval list list \<Rightarrow> nat" where
  "find_header_row env df_raw = find_header_loop env df_raw [0 ..< min 20 (length df_raw)]"

definition qtd_text :: "environment \<Rightarrow> pyval \<Rightarrow> ustring" where
  \<comment> \<open>the text of one cell of the column \<open>QTD\<close> that \<open>load_excel_from_bytes\<close> hands to
      the numeric parser\<close>
  "qtd_text env v = replace (replace (py_str (lib env) v) (ustr ''.'') (ustr '''')) (ustr '','') (ustr ''.'')"

definition format_qtd :: "environment \<Rightarrow> pyval \<Rightarrow> ustring" where
  "format_qtd env val =
     (case py_float (lib env) val of
        None \<Rightarrow> py_str (lib env) val
      | Some f \<Rightarrow>
          (case round_float (lib env) f of
             None \<Rightarrow> py_str (lib env) val
           | Some r \<Rightarrow> if float_near (lib env) f r then str_int r else str_float (lib env) f))"

section \<open>The document composer\<close>

subsection \<open>Configuration and layout constants\<close>

text \<open>
  Lengths are points. The source computes them in floating point; here they are exact
  rationals, with \<open>cm\<close> and the page size as the drawing library defines them
  (\<open>inch = 72\<close>, \<open>cm = inch / 2.54\<close>, \<open>mm = cm * 0.1\<close>, \<open>A4 = (210 * mm, 297 * mm)\<close>).
\<close>

definition cm :: rat where "cm = 72 / 2.54"
definition A4 :: "rat \<times> rat" where "A4 = (210 * (cm * 0.1), 297 * (cm * 0.1))"

definition CLIENTE_FIXO :: ustring where "CLIENTE_FIXO = ustr ''SPRINGER CARRIER LTDA (MIDEA).''"
definition CONTEUDO_FIXO :: ustring where "CONTEUDO_FIXO = ustr ''CHEIO''"
definition PRODUTO_TITULO :: ustring where "PRODUTO_TITULO = ustr ''FAST CIF/FOB''"
definition FORM_COD :: ustring where "FORM_COD = ustr ''FM 108''"
definition FORM_REV :: ustring where "FORM_REV = ustr ''00''"
definition LOGO_IMAGE_PATH :: ustring where "LOGO_IMAGE_PATH = ustr ''logo_tecadi.png''"


definition MARGIN_L :: rat where "MARGIN_L = 1.6 * cm"
definition MARGIN_R :: rat where "MARGIN_R = 1.6 * cm"
definition COL_LABEL_X :: rat where "COL_LABEL_X = MARGIN_L + 0.9 * cm"
definition COL_VALUE_X :: rat where "COL_VALUE_X = MARGIN_L + 6.3 * cm"
definition STEP_Y :: rat where "STEP_Y = 0.95 * cm"
definition ROUND_R :: rat where "ROUND_R = 8"
definition GAP_AFTER_INFO_TITLE :: rat where "GAP_AFTER_INFO_TITLE = 0.60 * cm"
definition GAP_AFTER_FAST_TITLE :: rat where "GAP_AFTER_FAST_TITLE = 0.60 * cm"
definition SIG_DELTA_DOWN :: rat where "SIG_DELTA_DOWN = 1.50 * cm"
definition TITLE_SHIFT_LEFT :: rat where "TITLE_SHIFT_LEFT = 0.50 * cm"

subsection \<open>The canvas\<close>

text \<open>
  The page is the sequence of drawing calls made on the canvas; the byte stream the
  library writes from them is not modelled.
\<close>

datatype color = Black

datatype draw_op =
    SetFillColor color
  | SetStrokeColor color
  | DrawImage ustring rat rat rat rat
  | SetFont ustring rat
  | DrawCentredString rat rat ustring
  | DrawRightString rat rat ustring
  | DrawString rat rat ustring
  | SetLineWidth rat
  | RoundRect rat rat rat rat rat
  | Line rat rat rat rat
  | FrameParagraph rat rat rat rat ustring
  | ShowPage
  | Save

type_synonym canvas = "draw_op list"

record datetime =
  year :: nat
  month :: nat
  day :: nat

definition pad2 :: "nat \<Rightarrow> ustring" where
  "pad2 n = (if n < 10 then 0x30 # str_nat n else str_nat n)"

definition strftime_dmY :: "datetime \<Rightarrow> ustring" where
  \<comment> \<open>\<open>d.strftime("%d/%m/%Y")\<close>, for a year of four digits\<close>
  "strftime_dmY d = pad2 (day d) @ ustr ''/'' @ pad2 (month d) @ ustr ''/'' @ str_nat (year d)"

type_synonym series = "(ustring \<times> pyval) list"
  \<comment> \<open>one row of the table: the column names with the cells\<close>

definition str_or_default :: "environment \<Rightarrow> series \<Rightarrow> ustring \<Rightarrow> ustring \<Rightarrow> ustring" where
  "str_or_default env row col dflt =
     (case map_of row col of
        Some v \<Rightarrow> if notna v then strip (lib env) (py_str (lib env) v) else dflt
      | None \<Rightarrow> dflt)"

definition dict_get :: "(ustring \<times> ustring) list \<Rightarrow> ustring \<Rightarrow> ustring \<Rightarrow> ustring" where
  \<comment> \<open>\<open>d.get(key, default)\<close>\<close>
  "dict_get d k dflt = (case map_of d k of Some v \<Rightarrow> v | None \<Rightarrow> dflt)"

definition draw_header :: "environment \<Rightarrow> canvas \<Rightarrow> datetime \<Rightarrow> rat \<Rightarrow> rat \<Rightarrow> canvas" where
  "draw_header env c data_cabecalho page_w page_h =
     (let c = c @ [SetFillColor Black, SetStrokeColor Black];
          c = (if logo env = LogoReadable
               then c @ [DrawImage LOGO_IMAGE_PATH MARGIN_L (page_h - 2.35 * cm) (3.9 * cm) (1.25 * cm)]
               else c);
          c = c @ [SetFont (ustr ''Helvetica-Bold'') 22,
                   DrawCentredString (page_w / 2 - TITLE_SHIFT_LEFT) (page_h - 2.7 * cm)
                     (ustr ''Romaneio Manual'')];
          box_w = 5.4 * cm; box_h = 3.0 * cm;
          box_x = page_w - MARGIN_R - box_w;
          box_y = page_h - 2.0 * cm - box_h
      in c @ [SetLineWidth 1.5,
              RoundRect box_x box_y box_w box_h 6,
              SetFont (ustr ''Helvetica-Bold'') 16,
              DrawCentredString (box_x + box_w / 2) (box_y + box_h - 0.9 * cm) (ustr ''Romaneio''),
              SetFont (ustr ''Helvetica'') 10.5,
              DrawRightString (box_x + box_w - 0.3 * cm) (box_y + box_h - 1.55 * cm)
                (ustr ''C'' @ [0xF3] @ ustr ''d.: '' @ FORM_COD),
              DrawRightString (box_x + box_w - 0.3 * cm) (box_y + box_h - 2.10 * cm)
                (ustr ''Rev.: '' @ FORM_REV),
              DrawRightString (box_x + box_w - 0.3 * cm) (box_y + 0.55 * cm)
                (ustr ''Data: '' @ strftime_dmY data_cabecalho)])"

fun draw_rows :: "canvas \<Rightarrow> rat \<Rightarrow> (ustring \<times> ustring) list \<Rightarrow> canvas \<times> rat" where
  \<comment> \<open>the loop both sections run over their labelled values; it returns the canvas and
      the \<open>y\<close> it ends at\<close>
  "draw_rows c y [] = (c, y)"
| "draw_rows c y ((rot, val) # rows) =
     draw_rows (c @ [DrawString COL_LABEL_X y rot,
                     SetFont (ustr ''Helvetica'') 12,
                     DrawString COL_VALUE_X y val,
                     SetFont (ustr ''Helvetica-Bold'') 12])
               (y - STEP_Y) rows"

definition draw_info_section ::
  "canvas \<Rightarrow> (ustring \<times> ustring) list \<Rightarrow> rat \<Rightarrow> rat \<Rightarrow> canvas \<times> rat" where
  "draw_info_section c info page_w page_h =
     (let title_h = 1.1 * cm;
          content_h = 6 * STEP_Y;
          pad_top = 0.5 * cm; pad_bottom = 0.6 * cm;
          sec_h = title_h + pad_top + GAP_AFTER_INFO_TITLE + content_h + pad_bottom;
          top_y = page_h - 6.1 * cm;
          bottom_y = top_y - sec_h;
          c = c @ [SetLineWidth 1.5,
                   RoundRect MARGIN_L bottom_y (page_w - MARGIN_L - MARGIN_R) sec_h ROUND_R,
                   SetFont (ustr ''Helvetica-Bold'') 20,
                   DrawString (MARGIN_L + 0.7 * cm) (top_y - 0.85 * cm)
                     (ustr ''Informa'' @ [0xE7, 0xF5] @ ustr ''es:'')];
          y = top_y - title_h - GAP_AFTER_INFO_TITLE;
          c = c @ [SetFont (ustr ''Helvetica-Bold'') 12];
          rows = [(ustr ''DATA:'', dict_get info (ustr ''DATA'') []),
                  (ustr ''CONTEUDO:'', dict_get info (ustr ''CONTEUDO'') []),
                  (ustr ''CLIENTE:'', dict_get info (ustr ''CLIENTE'') []),
                  (ustr ''TRANSPORTADORA:'', dict_get info (ustr ''TRANSPORTADORA'') []),
                  (ustr ''MOTORISTA:'', dict_get info (ustr ''MOTORISTA'') []),
                  (ustr ''PLACA:'', dict_get info (ustr ''PLACA'') [])]
      in (fst (draw_rows c y rows), bottom_y - 0.9 * cm))"

definition draw_products_section ::
  "environment \<Rightarrow> canvas \<Rightarrow> (ustring \<times> ustring) list \<Rightarrow> rat \<Rightarrow> rat \<Rightarrow> pyerror + canvas" where
  "draw_products_section env c prod_info start_y page_w =
     (let title_h = 1.0 * cm;
          fields_h = 4 * STEP_Y;
          lista_h = 5.0 * cm;
          pad_top = 0.5 * cm; pad_bottom = 0.6 * cm;
          gap_fields_lista = 0.35 * cm;
          sec_h = title_h + pad_top + GAP_AFTER_FAST_TITLE + fields_h + gap_fields_lista
                  + lista_h + pad_bottom;
          bottom_y = start_y - sec_h;
          c = c @ [SetLineWidth 1.5,
                   RoundRect MARGIN_L bottom_y (page_w - MARGIN_L - MARGIN_R) sec_h ROUND_R,
                   SetFont (ustr ''Helvetica-Bold'') 18,
                   DrawString (MARGIN_L + 0.7 * cm) (start_y - 0.8 * cm) PRODUTO_TITULO];
          y = start_y - title_h - GAP_AFTER_FAST_TITLE;
          c = c @ [SetFont (ustr ''Helvetica-Bold'') 12];
          fields = [(ustr ''CNTR(ORIGEM):'', dict_get prod_info (ustr ''CNTR_ORIGEM'') []),
                    (ustr ''CNTR(TECADI):'', dict_get prod_info (ustr ''CNTR_TECADI'') []),
                    (ustr ''SKU:'', dict_get prod_info (ustr ''SKU'') []),
                    (ustr ''QTD:'', dict_get prod_info (ustr ''QTD'') [])];
          c = fst (draw_rows c y fields);
          y = snd (draw_rows c y fields);
          y = y - gap_fields_lista;
          c = c @ [DrawString COL_LABEL_X y (ustr ''LISTA:'')];
          y = y - 0.3 * cm;
          lista_texto = replace (replace (dict_get prod_info (ustr ''LISTA'') [])
                                   (ustr '' ;'') (ustr '';'')) (ustr ''  '') (ustr '' '')
      in case markup_error env lista_texto of
           Some e \<Rightarrow> Inl e
         | None \<Rightarrow>
             (let frame_x = COL_LABEL_X;
                  frame_y = bottom_y + pad_bottom + 0.2 * cm;
                  frame_w = page_w - MARGIN_R - frame_x;
                  frame_h = lista_h;
                  c = c @ [FrameParagraph frame_x frame_y frame_w frame_h lista_texto];
                  sig_y = 2.6 * cm - SIG_DELTA_DOWN
              in Inr (c @ [SetStrokeColor Black, SetLineWidth 1,
                           Line (2 * cm) sig_y (9 * cm) sig_y,
                           Line (11 * cm) sig_y (18 * cm) sig_y,
                           SetFont (ustr ''Helvetica'') 10,
                           DrawCentredString (5.5 * cm) (sig_y - 0.45 * cm) (ustr ''ASS: MOTORISTA''),
                           DrawCentredString (14.5 * cm) (sig_y - 0.45 * cm)
                             (ustr ''ASS: CONFERENTE'')])))"

definition gerar_pdf_row :: "environment \<Rightarrow> series \<Rightarrow> datetime \<Rightarrow> pyerror + canvas" where
  "gerar_pdf_row env row data_cabecalho =
     (let c = [];
          page_w = fst A4; page_h = snd A4;
          c = draw_header env c data_cabecalho page_w page_h;
          info = [(ustr ''DATA'', strftime_dmY data_cabecalho),
                  (ustr ''CONTEUDO'', CONTEUDO_FIXO),
                  (ustr ''CLIENTE'', CLIENTE_FIXO),
                  (ustr ''TRANSPORTADORA'', str_or_default env row (ustr ''TRANSPORTADORA'') []),
                  (ustr ''MOTORISTA'', str_or_default env row (ustr ''NOME'') []),
                  (ustr ''PLACA'', str_or_default env row (ustr ''PLACA'') [])];
          next_y = snd (draw_info_section c info page_w page_h);
          c = fst (draw_info_section c info page_w page_h);
          prod = [(ustr ''CNTR_ORIGEM'', str_or_default env row (ustr ''ARMADOR'') []),
                  (ustr ''CNTR_TECADI'', str_or_default env row (ustr ''TECADI'') []),
                  (ustr ''SKU'', str_or_default env row (ustr ''SKU'') []),
                  (ustr ''QTD'', format_qtd env (PStr (str_or_default env row (ustr ''QTD'') []))),
                  (ustr ''LISTA'', str_or_default env row (ustr ''LISTA'') [])]
      in case draw_products_section env c prod next_y page_w of
           Inl e \<Rightarrow> Inl e
         | Inr c \<Rightarrow> Inr (c @ [ShowPage, Save]))"

section \<open>Loading the table\<close>

definition normalize :: "environment \<Rightarrow> ustring \<Rightarrow> ustring" where
  "normalize env s =
     (let s = filter (\<lambda>c. combining (lib env) c = 0) (nfkd (lib env) s);
          s = join (ustr '' '') (split (lib env) (strip (lib env) s))
      in upper (lib env) s)"

definition COLMAP :: "(ustring \<times> ustring) list" where
  "COLMAP = [
     (ustr ''DEMANDA'', ustr ''DEMANDA''), (ustr ''HORARIO'', ustr ''HORARIO''),
     (ustr ''ARMADOR'', ustr ''ARMADOR''), (ustr ''TRANSPORTADORA'', ustr ''TRANSPORTADORA''),
     (ustr ''DATA PROGRAMACAO'', ustr ''DATA PROGRAMA'' @ [0xC7, 0xC3] @ ustr ''O''),
     (ustr ''DATA PROGRAMA'' @ [0xC7, 0xC3] @ ustr ''O'', ustr ''DATA PROGRAMA'' @ [0xC7, 0xC3] @ ustr ''O''),
     (ustr ''ROMANEIO'', ustr ''ROMANEIO''), (ustr ''SKU'', ustr ''SKU''), (ustr ''QTD'', ustr ''QTD''),
     (ustr ''M3'', ustr ''M3''), (ustr ''STATUS'', ustr ''STATUS''), (ustr ''NOME'', ustr ''NOME''),
     (ustr ''MOTORISTA'', ustr ''NOME''), (ustr ''PLACA'', ustr ''PLACA''),
     (ustr ''TECADI'', ustr ''TECADI''), (ustr ''LISTA'', ustr ''LISTA'')]"

definition canonical_key :: "environment \<Rightarrow> ustring \<Rightarrow> ustring" where
  \<comment> \<open>\<open>COLMAP.get(normalize(c), normalize(c))\<close>\<close>
  "canonical_key env c =
     (case map_of COLMAP (normalize env c) of Some k \<Rightarrow> k | None \<Rightarrow> normalize env c)"

text \<open>
  A table has its column names and its rows, every row with its index label and one
  cell for each column.
\<close>

record table =
  columns :: "ustring list"
  index_rows :: "(nat \<times> pyval list) list"

definition rename_columns :: "environment \<Rightarrow> table \<Rightarrow> table" where
  \<comment> \<open>the columns are renamed, and of the columns that share a name the first is kept\<close>
  "rename_columns env df =
     (let names = map (canonical_key env) (columns df);
          keep = set (filter (\<lambda>i. names ! i \<notin> set (take i names)) [0 ..< length names])
      in \<lparr>columns = nths names keep,
          index_rows = map (\<lambda>(i, cells). (i, nths cells keep)) (index_rows df)\<rparr>)"

fun index_of :: "'a \<Rightarrow> 'a list \<Rightarrow> nat option" where
  "index_of x [] = None"
| "index_of x (y # ys) = (if x = y then Some 0 else map_option Suc (index_of x ys))"

definition get_column :: "ustring \<Rightarrow> table \<Rightarrow> pyval list" where
  \<comment> \<open>\<open>df[col]\<close>, for a column the table has\<close>
  "get_column col df =
     (case index_of col (columns df) of
        None \<Rightarrow> []
      | Some j \<Rightarrow> map (\<lambda>(i, cells). cells ! j) (index_rows df))"

definition set_column :: "ustring \<Rightarrow> pyval list \<Rightarrow> table \<Rightarrow> table" where
  \<comment> \<open>\<open>df[col] = vals\<close>, for a column the table has and one value for each row\<close>
  "set_column col vals df =
     (case index_of col (columns df) of
        None \<Rightarrow> df
      | Some j \<Rightarrow> df\<lparr>index_rows := map2 (\<lambda>(i, cells) v. (i, cells[j := v])) (index_rows df) vals\<rparr>)"

definition index_error :: pyerror where
  "index_error = PyError (ustr ''single positional indexer is out-of-bounds'')
     (ustr ''IndexError('' @ [0x27] @ ustr ''single positional indexer is out-of-bounds'' @ [0x27] @
      ustr '')'')"

definition load_excel_from_bytes :: "environment \<Rightarrow> nat list \<Rightarrow> pyerror + table" where
  "load_excel_from_bytes env xls_bytes =
     (case read_excel env xls_bytes of
        Inl e \<Rightarrow> Inl e
      | Inr df_raw \<Rightarrow>
          (let header_row = find_header_row env df_raw in
           if length df_raw \<le> header_row then Inl index_error
           else
             (let headers = map (py_str (lib env)) (df_raw ! header_row);
                  df = \<lparr>columns = headers,
                        index_rows = zip [header_row + 1 ..< length df_raw] (drop (header_row + 1) df_raw)\<rparr>;
                  df = \<lparr>columns = take 15 (columns df),
                        index_rows = map (\<lambda>(i, cells). (i, take 15 cells)) (index_rows df)\<rparr>;
                  df = df\<lparr>index_rows := filter (\<lambda>(i, cells). \<exists>v \<in> set cells. notna v) (index_rows df)\<rparr>;
                  df = rename_columns env df;
                  df = (if ustr ''QTD'' \<in> set (columns df)
                        then set_column (ustr ''QTD'')
                               (to_numeric (lib env) (map (qtd_text env) (get_column (ustr ''QTD'') df))) df
                        else df);
                  df = (if ustr ''STATUS'' \<in> set (columns df)
                        then set_column (ustr ''STATUS'')
                               (map (\<lambda>v. PStr (upper (lib env) (strip (lib env) (py_str (lib env) v))))
                                  (get_column (ustr ''STATUS'') df)) df
                        else df)
              in Inr (df\<lparr>index_rows := zip [0 ..< length (index_rows df)] (map snd (index_rows df))\<rparr>))))"

section \<open>Fetching the workbook\<close>

definition ONEDRIVE_LINK :: ustring where
  "ONEDRIVE_LINK = ustr ''https://tecadi-my.sharepoint.com/:x:/g/personal/rafael_alves_tecadi_com_br/EaJshSFavb5Pv8z_dpW3ZWwB8cAXsuPSrGyYoAB7ye11Aw''"

definition download_error :: pyerror where
  "download_error =
     PyError (ustr ''N'' @ [0xE3] @ ustr ''o foi poss'' @ [0xED] @
              ustr ''vel baixar a planilha. Verifique o compartilhamento do link no OneDrive.'')
             (ustr ''RuntimeError('' @ [0x27] @ ustr ''N'' @ [0xE3] @ ustr ''o foi poss'' @ [0xED] @
              ustr ''vel baixar a planilha. Verifique o compartilhamento do link no OneDrive.'' @
              [0x27] @ ustr '')'')"

definition usable :: "response \<Rightarrow> bool" where
  \<comment> \<open>\<open>r.ok and r.content and len(r.content) > 1000\<close>\<close>
  "usable r = (ok r \<and> content r \<noteq> [] \<and> 1000 < length (content r))"

definition onedrive_direct_download :: "environment \<Rightarrow> ustring \<Rightarrow> pyerror + nat list" where
  "onedrive_direct_download env shared_url =
     (let base = url_base env shared_url;
          url1 = base @ ustr ''/_layouts/15/download.aspx'' @ [0x3F] @ ustr ''SourceUrl='' @
                 quote env shared_url
      in case http_get env url1 of
           Inl e \<Rightarrow> Inl e
         | Inr r1 \<Rightarrow>
             if usable r1 then Inr (content r1)
             else
               (let sep = (if contains shared_url [0x3F] then ustr ''&'' else [0x3F]);
                    url2 = shared_url @ sep @ ustr ''download=1''
                in case http_get env url2 of
                     Inl e \<Rightarrow> Inl e
                   | Inr r2 \<Rightarrow> if usable r2 then Inr (content r2) else Inl download_error))"

section \<open>The application\<close>

record session_state =
  df_cache :: "table option"
  fetch_error :: "ustring option"
  selected_keys :: "ustring list"

definition bt_atualizar :: "environment \<Rightarrow> session_state \<Rightarrow> session_state" where
  \<comment> \<open>the handler of the refresh button\<close>
  "bt_atualizar env st =
     (case onedrive_direct_download env ONEDRIVE_LINK of
        Inl e \<Rightarrow> st\<lparr>df_cache := None, fetch_error := Some (err_str e)\<rparr>
      | Inr xls_bytes \<Rightarrow>
          (case load_excel_from_bytes env xls_bytes of
             Inl e \<Rightarrow> st\<lparr>df_cache := None, fetch_error := Some (err_str e)\<rparr>
           | Inr df \<Rightarrow> st\<lparr>df_cache := Some df, fetch_error := None\<rparr>))"

definition re_search_digits :: "pylib \<Rightarrow> ustring \<Rightarrow> ustring option" where
  \<comment> \<open>the group of \<open>re.search(r"(\d+)", s)\<close>: the first maximal run of digits\<close>
  "re_search_digits L s =
     (let r = dropWhile (\<lambda>c. \<not> isdigit L c) s
      in if r = [] then None else Some (takeWhile (isdigit L) r))"

definition row_get :: "series \<Rightarrow> ustring \<Rightarrow> pyval \<Rightarrow> pyval" where
  \<comment> \<open>\<open>row.get(col, default)\<close>\<close>
  "row_get row col dflt = (case map_of row col of Some v \<Rightarrow> v | None \<Rightarrow> dflt)"

definition make_key :: "environment \<Rightarrow> series \<Rightarrow> ustring" where
  "make_key env row =
     (let demanda_raw = py_str (lib env) (row_get row (ustr ''DEMANDA'') (PStr []));
          demanda_num = (case re_search_digits (lib env) demanda_raw of
                           Some m \<Rightarrow> m | None \<Rightarrow> demanda_raw)
      in demanda_num @ ustr ''|'' @ py_str (lib env) (row_get row (ustr ''ARMADOR'') (PStr [])))"

definition fname :: "environment \<Rightarrow> series \<Rightarrow> ustring" where
  \<comment> \<open>the name of a record's document in the archive\<close>
  "fname env row =
     (let demanda_raw = str_or_default env row (ustr ''DEMANDA'') [];
          demanda_num = (case re_search_digits (lib env) demanda_raw of
                           Some m \<Rightarrow> m | None \<Rightarrow> demanda_raw);
          armador = str_or_default env row (ustr ''ARMADOR'') []
      in demanda_num @ ustr ''.'' @ armador @ ustr ''.pdf'')"

datatype zip_content = Pdf canvas | Text ustring

type_synonym zipfile = "(ustring \<times> zip_content) list"
  \<comment> \<open>the entries in the order they were written; a name may occur twice\<close>

definition writestr :: "zipfile \<Rightarrow> ustring \<Rightarrow> zip_content \<Rightarrow> zipfile" where
  "writestr zf name data = zf @ [(name, data)]"

fun gerar_loop :: "environment \<Rightarrow> datetime \<Rightarrow> zipfile \<Rightarrow> (nat \<times> series) list \<Rightarrow> zipfile" where
  \<comment> \<open>the loop over the selected rows, with its \<open>try\<close> and \<open>except\<close>\<close>
  "gerar_loop env data_pdf zf [] = zf"
| "gerar_loop env data_pdf zf ((i, row) # rest) =
     gerar_loop env data_pdf
       (case gerar_pdf_row env row data_pdf of
          Inr pdf_bytes \<Rightarrow> writestr zf (fname env row) (Pdf pdf_bytes)
        | Inl e \<Rightarrow>
            writestr zf (ustr ''ERRO_'' @ str_nat i @ ustr ''.txt'')
              (Text (ustr ''Falha na linha '' @ str_nat i @ ustr '': '' @ err_repr e)))
       rest"



definition select_rows :: "environment \<Rightarrow> table \<Rightarrow> ustring list \<Rightarrow> table" where
  \<comment> \<open>the rows whose status is \<open>FINALIZADO\<close>, with the column \<open>_key\<close> added behind the
      others, cut down to the rows whose \<open>_key\<close> is selected when there is a selection\<close>
  "select_rows env df selected =
     (let fin = filter (\<lambda>(i, cells).
                   upper (lib env) (py_str (lib env) (row_get (zip (columns df) cells) (ustr ''STATUS'') PNone))
                     = ustr ''FINALIZADO'') (index_rows df);
          keyed = map (\<lambda>(i, cells). (i, cells @ [PStr (make_key env (zip (columns df) cells))])) fin;
          df_ok = \<lparr>columns = columns df @ [ustr ''_key''], index_rows = keyed\<rparr>
      in if selected \<noteq> []
         then df_ok\<lparr>index_rows := filter (\<lambda>(i, cells). last cells \<in> set (map PStr selected)) keyed\<rparr>
         else df_ok)"



section \<open>Vocabulary of the claims\<close>


definition finished :: "environment \<Rightarrow> table \<Rightarrow> pyval list \<Rightarrow> bool" where
  \<comment> \<open>the row of these cells passes the status filter of the generate button\<close>
  "finished env df cells =
     (upper (lib env) (py_str (lib env) (row_get (zip (columns df) cells) (ustr ''STATUS'') PNone))
        = ustr ''FINALIZADO'')"

definition keyed :: "environment \<Rightarrow> table \<Rightarrow> pyval list \<Rightarrow> pyval list" where
  \<comment> \<open>the cells of a row with the cell of the column \<open>_key\<close> behind them\<close>
  "keyed env df cells = cells @ [PStr (make_key env (zip (columns df) cells))]"

definition spec_info_height :: "nat \<Rightarrow> rat" where
  \<comment> \<open>the height formula of the info section as the specification words it, for a
      section of \<open>row_count\<close> rows\<close>
  "spec_info_height row_count =
     1.1 * cm + 0.5 * cm + GAP_AFTER_INFO_TITLE + of_nat row_count * STEP_Y + 0.6 * cm"

fun is_round_rect :: "draw_op \<Rightarrow> bool" where
  "is_round_rect (RoundRect x y w h r) = True"
| "is_round_rect _ = False"

fun is_pdf :: "ustring \<times> zip_content \<Rightarrow> bool" where
  "is_pdf (name, Pdf c) = True"
| "is_pdf (name, Text t) = False"

definition renders :: "environment \<Rightarrow> datetime \<Rightarrow> nat \<times> series \<Rightarrow> bool" where
  \<comment> \<open>document generation does not raise for this record\<close>
  "renders env data_pdf r = (case gerar_pdf_row env (snd r) data_pdf of Inr c \<Rightarrow> True | Inl e \<Rightarrow> False)"


section \<open>Sample inputs\<close>

definition sample_error :: pyerror where
  "sample_error = PyError (ustr ''paragraph text has invalid markup'')
     (ustr ''ValueError(paragraph text has invalid markup)'')"

text \<open>
  A fragment of the libraries, for the sample inputs only. It knows the whitespace and
  the digits of ASCII, the upper case of the ASCII letters, text that has no
  decomposition and no combining mark, the integers a float holds exactly, and three
  floats with their texts, their rounded values and whether the test
  \<open>abs(f - round(f)) < 1e-9\<close> holds of them; it takes every other text for no number
  and every other float for \<open>nan\<close>. No theorem is about this fragment: it only
  shows that what the theorems assume can hold.
\<close>

definition sample_floats :: "(ustring \<times> pyfloat \<times> int \<times> bool) list" where
  "sample_floats =
     [(ustr ''10.0'', Fin False 10 0, 10, True),
      (ustr ''1234.0'', Fin False 1234 0, 1234, True),
      (ustr ''1234.5'', Fin False 12345 1, 1234, False)]"

definition sample_lib :: pylib where
  "sample_lib =
     \<lparr>isspace = (\<lambda>c. c \<in> {0x09, 0x0A, 0x0B, 0x0C, 0x0D, 0x20}),
      isdigit = (\<lambda>c. 0x30 \<le> c \<and> c \<le> 0x39),
      upper = map (\<lambda>c. if 0x61 \<le> c \<and> c \<le> 0x7A then c - 0x20 else c),
      nfkd = (\<lambda>s. s),
      combining = (\<lambda>c. 0),
      float_of_text = (\<lambda>s. map_option fst (map_of sample_floats s)),
      float_of_int = (\<lambda>i. if \<bar>i\<bar> < 2 ^ 53 then Some (Fin (i < 0) (nat \<bar>i\<bar>) 0) else None),
      round_float = (\<lambda>f. map_option fst (map_of (map snd sample_floats) f)),
      float_near = (\<lambda>f r. (f, r, True) \<in> set (map snd sample_floats)),
      str_float = (\<lambda>f. case map_of (map (\<lambda>(s, f, r, b). (f, s)) sample_floats) f of
                          Some s \<Rightarrow> s | None \<Rightarrow> ustr ''nan''),
      to_numeric = map (\<lambda>s. case map_of sample_floats s of
                               Some (f, r, b) \<Rightarrow> PFloat f | None \<Rightarrow> PFloat NaN)\<rparr>"

definition sample_env :: environment where
  \<comment> \<open>the sample libraries, no logo file, a paragraph parser that rejects text with a
      \<open><\<close>, a server that answers every request with an empty page, and a reader that
      never runs\<close>
  "sample_env =
     \<lparr>lib = sample_lib,
      logo = LogoMissing,
      markup_error = (\<lambda>s. if contains s [0x3C] then Some sample_error else None),
      http_get = (\<lambda>u. Inr \<lparr>ok = False, content = []\<rparr>),
      url_base = (\<lambda>u. ustr ''https://tecadi-my.sharepoint.com''),
      quote = (\<lambda>u. u),
      read_excel = (\<lambda>b. Inl sample_error)\<rparr>"

definition sample_date :: datetime where
  "sample_date = \<lparr>year = 2025, month = 3, day = 7\<rparr>"

definition sample_columns :: "ustring list" where
  "sample_columns = map ustr [''DEMANDA'', ''ARMADOR'', ''TRANSPORTADORA'', ''SKU'', ''QTD'',
     ''STATUS'', ''NOME'', ''PLACA'', ''TECADI'', ''LISTA'']"

definition sample_cells :: "string \<Rightarrow> pyval \<Rightarrow> string \<Rightarrow> pyval list" where
  \<comment> \<open>a finished record with the given \<open>DEMANDA\<close>, \<open>SKU\<close> and \<open>LISTA\<close>\<close>
  "sample_cells demanda sku lista =
     [PStr (ustr demanda), PStr (ustr ''MAERSK''), PStr (ustr ''TRANSLOG''), sku,
      PFloat (Fin False 10 0), PStr (ustr ''FINALIZADO''), PStr (ustr ''JOSE''),
      PStr (ustr ''ABC1D23''), PStr (ustr ''TEC1''), PStr (ustr lista)]"

definition sample_row :: "string \<Rightarrow> pyval \<Rightarrow> string \<Rightarrow> series" where
  "sample_row demanda sku lista = zip sample_columns (sample_cells demanda sku lista)"

definition sample_state :: "pyval list list \<Rightarrow> session_state" where
  \<comment> \<open>a session that holds a table of the given rows and no selection\<close>
  "sample_state rs =
     \<lparr>df_cache = Some \<lparr>columns = sample_columns, index_rows = zip [0 ..< length rs] rs\<rparr>,
      fetch_error = None, selected_keys = []\<rparr>"

section \<open>Properties of the string functions\<close>

lemma startswith_iff: "startswith s p \<longleftrightarrow> (\<exists>b. s = p @ b)"
  by (induction s p rule: startswith.induct) auto

lemma contains_iff: "contains s sub \<longleftrightarrow> (\<exists>a b. s = a @ sub @ b)"
proof (induction s)
  case Nil
  then show ?case by auto
next
  case (Cons c cs)
  show ?case
  proof
    assume "contains (c # cs) sub"
    then consider "startswith (c # cs) sub" | "contains cs sub" by auto
    then show "\<exists>a b. c # cs = a @ sub @ b"
    proof cases
      case 1
      then obtain b where "c # cs = [] @ sub @ b" by (auto simp: startswith_iff)
      then show ?thesis by blast
    next
      case 2
      then obtain a b where "cs = a @ sub @ b" using Cons.IH by auto
      then have "c # cs = (c # a) @ sub @ b" by simp
      then show ?thesis by blast
    qed
  next
    assume "\<exists>a b. c # cs = a @ sub @ b"
    then obtain a b where ab: "c # cs = a @ sub @ b" by auto
    show "contains (c # cs) sub"
    proof (cases a)
      case Nil
      then have "startswith (c # cs) sub" using ab by (auto simp: startswith_iff)
      then show ?thesis by simp
    next
      case (Cons x a')
      then have "cs = a' @ sub @ b" using ab by simp
      then show ?thesis using Cons.IH by auto
    qed
  qed
qed

section \<open>Header detection\<close>

lemma upt_split_at: "k < n \<Longrightarrow> [0 ..< n] = [0 ..< k] @ k # [Suc k ..< n]"
  by (induction n) (auto simp: less_Suc_eq)

lemma find_header_loop_hit:
  "\<forall>j \<in> set pre. \<not> has_markers env (df ! j) \<Longrightarrow> has_markers env (df ! k) \<Longrightarrow>
   find_header_loop env df (pre @ k # post) = k"
  by (induction pre) auto

lemma find_header_loop_miss:
  "\<forall>j \<in> set js. \<not> has_markers env (df ! j) \<Longrightarrow> find_header_loop env df js = 0"
  by (induction js) auto

lemma find_header_loop_cong:
  "\<forall>j \<in> set js. df ! j = df' ! j \<Longrightarrow> find_header_loop env df js = find_header_loop env df' js"
  by (induction js) auto

lemma find_header_row_take: "find_header_row env (take 20 df) = find_header_row env df"
proof -
  have len: "min 20 (length (take 20 df)) = min 20 (length df)" by simp
  have "find_header_loop env (take 20 df) [0 ..< min 20 (length df)] =
        find_header_loop env df [0 ..< min 20 (length df)]"
    by (rule find_header_loop_cong) simp
  then show ?thesis by (simp only: find_header_row_def len)
qed

text \<open>
  C1. Header detection looks at the first 20 rows only (all rows when there are fewer):
  the result is the same on the grid cut after 20 rows. If row \<open>k\<close> of that window is
  the first whose cell texts, joined by spaces and upper-cased by \<open>str.upper\<close>, contain
  both \<open>DEMANDA\<close> and \<open>ARMADOR\<close>, the result is \<open>k\<close>; if no row of the window does,
  the result is 0. This holds whatever \<open>str\<close> and \<open>str.upper\<close> answer. The loop runs over
  at most 20 indices and nothing in it raises, so the function returns for every grid.
\<close>

theorem find_header_row_first:
  "find_header_row env df = find_header_row env (take 20 df) \<and>
   (k < 20 \<and> k < length df \<and> has_markers env (df ! k) \<and> (\<forall>j < k. \<not> has_markers env (df ! j))
      \<longrightarrow> find_header_row env df = k) \<and>
   ((\<forall>i < min 20 (length df). \<not> has_markers env (df ! i)) \<longrightarrow> find_header_row env df = 0)"
proof (intro conjI impI)
  show "find_header_row env df = find_header_row env (take 20 df)"
    by (simp add: find_header_row_take)
next
  assume h: "k < 20 \<and> k < length df \<and> has_markers env (df ! k) \<and> (\<forall>j < k. \<not> has_markers env (df ! j))"
  then have "k < min 20 (length df)" by simp
  then have "[0 ..< min 20 (length df)] = [0 ..< k] @ k # [Suc k ..< min 20 (length df)]"
    by (rule upt_split_at)
  moreover have "find_header_loop env df ([0 ..< k] @ k # [Suc k ..< min 20 (length df)]) = k"
    using h by (intro find_header_loop_hit) auto
  ultimately show "find_header_row env df = k"
    by (simp add: find_header_row_def)
next
  assume "\<forall>i < min 20 (length df). \<not> has_markers env (df ! i)"
  then have "\<forall>j \<in> set [0 ..< min 20 (length df)]. \<not> has_markers env (df ! j)" by simp
  then show "find_header_row env df = 0"
    unfolding find_header_row_def by (rule find_header_loop_miss)
qed

lemmas eval_lib = sample_env_def sample_lib_def sample_floats_def ustr_def

lemma has_markers_preamble: "\<not> has_markers sample_env [PStr (ustr ''Planilha''), PFloat NaN]"
  by (simp add: has_markers_def eval_lib)

lemma has_markers_header:
  "has_markers sample_env [PStr (ustr ''Demanda''), PFloat NaN, PStr (ustr ''Armador'')]"
  by (simp add: has_markers_def eval_lib)

theorem find_header_row_first_witness:
  "find_header_row sample_env
     [[PStr (ustr ''Planilha''), PFloat NaN],
      [PStr (ustr ''Demanda''), PFloat NaN, PStr (ustr ''Armador'')],
      [PStr (ustr ''123''), PFloat NaN, PStr (ustr ''MSKU'')]] = 1 \<and>
   find_header_row sample_env [[PStr (ustr ''Planilha''), PFloat NaN]] = 0"
proof -
  let ?g = "[[PStr (ustr ''Planilha''), PFloat NaN],
      [PStr (ustr ''Demanda''), PFloat NaN, PStr (ustr ''Armador'')],
      [PStr (ustr ''123''), PFloat NaN, PStr (ustr ''MSKU'')]]"
  have "find_header_row sample_env ?g = 1"
    using find_header_row_first [of sample_env ?g 1, THEN conjunct2]
      has_markers_preamble has_markers_header by simp
  moreover have "find_header_row sample_env [[PStr (ustr ''Planilha''), PFloat NaN]] = 0"
    using find_header_row_first [of sample_env "[[PStr (ustr ''Planilha''), PFloat NaN]]" 0, THEN conjunct2]
      has_markers_preamble by simp
  ultimately show ?thesis by simp
qed

section \<open>Quantities\<close>

lemma replace_delete_char: "replace s [a] [] = filter (\<lambda>c. c \<noteq> a) s"
  by (induction s) auto

lemma replace_map_char: "replace s [a] [b] = map (\<lambda>c. if c = a then b else c) s"
  by (induction s) auto

text \<open>
  The text of a quantity cell that reaches the numeric parser is the text of the cell
  with every period taken out and then every comma turned into a period.
\<close>

lemma qtd_text_stage:
  "qtd_text env v = map (\<lambda>c. if c = 0x2C then 0x2E else c) (filter (\<lambda>c. c \<noteq> 0x2E) (py_str (lib env) v))"
  by (simp add: qtd_text_def ustr_def replace_delete_char replace_map_char)

lemma qtd_text_samples:
  "qtd_text env (PStr (ustr ''1.234,5'')) = ustr ''1234.5''"
  "qtd_text env (PStr (ustr ''10'')) = ustr ''10''"
  "qtd_text env (PStr (ustr ''abc'')) = ustr ''abc''"
  by (simp_all add: qtd_text_stage ustr_def)






section \<open>Row identity\<close>

lemma re_search_digits_append:
  assumes "\<forall>c \<in> set w. \<not> isdigit L c"
  shows "re_search_digits L (a @ w) = re_search_digits L a"
proof (cases "\<forall>c \<in> set a. \<not> isdigit L c")
  case True
  then have "dropWhile (\<lambda>c. \<not> isdigit L c) (a @ w) = []" "dropWhile (\<lambda>c. \<not> isdigit L c) a = []"
    using assms by (auto simp: dropWhile_eq_Nil_conv)
  then show ?thesis by (simp add: re_search_digits_def)
next
  case False
  then obtain x where x: "x \<in> set a" "isdigit L x" by auto
  define r where "r = dropWhile (\<lambda>c. \<not> isdigit L c) a"
  have r: "dropWhile (\<lambda>c. \<not> isdigit L c) (a @ w) = r @ w"
    using x by (auto simp: r_def dropWhile_append)
  have rne: "r \<noteq> []" using x by (auto simp: r_def dropWhile_eq_Nil_conv)
  have tw: "takeWhile (isdigit L) w = []"
    using assms by (cases w) auto
  have "takeWhile (isdigit L) (r @ w) = takeWhile (isdigit L) r"
  proof (cases "\<forall>c \<in> set r. isdigit L c")
    case True
    then have e: "takeWhile (isdigit L) r = r" by (simp only: takeWhile_eq_all_conv)
    have "takeWhile (isdigit L) (r @ w) = r @ takeWhile (isdigit L) w"
      using True by (simp add: takeWhile_append)
    then show ?thesis by (simp only: tw e append_Nil2)
  next
    case False
    then show ?thesis by (auto simp: takeWhile_append)
  qed
  then show ?thesis using r rne by (simp add: re_search_digits_def r_def [symmetric])
qed

lemma re_search_digits_lstrip:
  assumes "\<forall>c. isspace L c \<longrightarrow> \<not> isdigit L c"
  shows "re_search_digits L (dropWhile (isspace L) s) = re_search_digits L s"
proof -
  have "dropWhile (\<lambda>c. \<not> isdigit L c) (dropWhile (isspace L) s) = dropWhile (\<lambda>c. \<not> isdigit L c) s"
    using assms by (induction s) auto
  then show ?thesis by (simp add: re_search_digits_def)
qed

lemma re_search_digits_strip:
  assumes ws: "\<forall>c. isspace L c \<longrightarrow> \<not> isdigit L c"
  shows "re_search_digits L (strip L s) = re_search_digits L s"
proof -
  define t where "t = dropWhile (isspace L) s"
  define w where "w = rev (takeWhile (isspace L) (rev t))"
  have "rev (takeWhile (isspace L) (rev t) @ dropWhile (isspace L) (rev t)) = rev (rev t)"
    by (simp only: takeWhile_dropWhile_id)
  then have "rev (dropWhile (isspace L) (rev t)) @ w = t"
    by (simp only: rev_append rev_rev_ident w_def)
  moreover have "strip L s = rev (dropWhile (isspace L) (rev t))"
    by (simp only: strip_def t_def)
  ultimately have t: "t = strip L s @ w" by simp
  have "\<forall>c \<in> set w. \<not> isdigit L c"
    using set_takeWhileD [of _ "isspace L" "rev t"] ws by (auto simp: w_def)
  then have "re_search_digits L (strip L s @ w) = re_search_digits L (strip L s)"
    by (rule re_search_digits_append)
  then have "re_search_digits L t = re_search_digits L (strip L s)" using t by simp
  then show ?thesis using ws by (simp add: t_def re_search_digits_lstrip)
qed

lemma strip_Nil: "strip L [] = []"
  by (simp add: strip_def)

lemma gerar_loop_map:
  "gerar_loop env d zf rs = zf @ map (\<lambda>(i, row).
      case gerar_pdf_row env row d of
        Inr pdf_bytes \<Rightarrow> (fname env row, Pdf pdf_bytes)
      | Inl e \<Rightarrow> (ustr ''ERRO_'' @ str_nat i @ ustr ''.txt'',
                  Text (ustr ''Falha na linha '' @ str_nat i @ ustr '': '' @ err_repr e))) rs"
proof (induction rs arbitrary: zf)
  case Nil
  then show ?case by simp
next
  case (Cons r rs)
  obtain i row where r: "r = (i, row)" by (cases r)
  show ?case
    unfolding r by (cases "gerar_pdf_row env row d") (simp_all add: Cons.IH writestr_def)
qed

lemma select_rows_mem:
  "(i, cs) \<in> set (index_rows (select_rows env df selected)) \<longleftrightarrow>
   (\<exists>cells. cs = keyed env df cells \<and> (i, cells) \<in> set (index_rows df) \<and> finished env df cells \<and>
      (selected \<noteq> [] \<longrightarrow> make_key env (zip (columns df) cells) \<in> set selected))"
  by (auto simp: select_rows_def Let_def finished_def keyed_def)

lemma same_key:
  assumes "re_search_digits (lib env) (py_str (lib env) (row_get r1 (ustr ''DEMANDA'') (PStr []))) = Some n"
    and "re_search_digits (lib env) (py_str (lib env) (row_get r2 (ustr ''DEMANDA'') (PStr []))) = Some n"
    and "row_get r1 (ustr ''ARMADOR'') (PStr []) = row_get r2 (ustr ''ARMADOR'') (PStr [])"
  shows "make_key env r1 = make_key env r2"
  using assms by (simp add: make_key_def)

lemma demanda_num:
  assumes ws: "\<forall>c. isspace (lib env) c \<longrightarrow> \<not> isdigit (lib env) c"
    and nan: "re_search_digits (lib env) (str_float (lib env) NaN) = None"
    and none: "re_search_digits (lib env) (ustr ''None'') = None"
    and n: "re_search_digits (lib env) (py_str (lib env) (row_get r (ustr ''DEMANDA'') (PStr []))) = Some n"
  shows "re_search_digits (lib env) (str_or_default env r (ustr ''DEMANDA'') []) = Some n"
proof (cases "map_of r (ustr ''DEMANDA'')")
  case None
  then show ?thesis using n by (simp add: row_get_def re_search_digits_def)
next
  case (Some v)
  then have v: "re_search_digits (lib env) (py_str (lib env) v) = Some n"
    using n by (simp add: row_get_def)
  have "notna v"
    using v nan none by (cases v rule: notna.cases) auto
  then show ?thesis
    using Some v ws by (simp add: str_or_default_def re_search_digits_strip)
qed

lemma same_armador:
  assumes "row_get r1 c (PStr []) = row_get r2 c (PStr [])"
  shows "str_or_default env r1 c [] = str_or_default env r2 c []"
  using assms
  by (cases "map_of r1 c"; cases "map_of r2 c")
     (auto simp: row_get_def str_or_default_def strip_Nil)

text \<open>
  C10. The selection key and the archive name of a record depend only on the first run of
  digits in its \<open>DEMANDA\<close> and on its \<open>ARMADOR\<close>. Take two records, however else they
  differ, whose \<open>DEMANDA\<close> values hold the same first maximal run of digits \<open>n\<close> and whose
  \<open>ARMADOR\<close> values are equal. Their selection keys are identical, so a selection holds
  the key of both or of neither, and when both are finished rows of the table, the rows
  that go to generation hold both or neither. Their documents get the same name, and
  when both render the archive holds that name twice. The name is built from the
  stripped text of a cell that is not null, so this half rests on three facts of the
  language: no whitespace character is a digit, and the texts \<open>nan\<close> and \<open>None\<close> of a
  null cell hold no digit.
\<close>

theorem key_not_injective:
  "(re_search_digits (lib env) (py_str (lib env) (row_get r1 (ustr ''DEMANDA'') (PStr []))) = Some n \<and>
    re_search_digits (lib env) (py_str (lib env) (row_get r2 (ustr ''DEMANDA'') (PStr []))) = Some n \<and>
    row_get r1 (ustr ''ARMADOR'') (PStr []) = row_get r2 (ustr ''ARMADOR'') (PStr [])
    \<longrightarrow>
      make_key env r1 = make_key env r2 \<and>
      (make_key env r1 \<in> set selected \<longleftrightarrow> make_key env r2 \<in> set selected) \<and>
      (r1 = zip (columns df) c1 \<and> r2 = zip (columns df) c2 \<and>
       (i, c1) \<in> set (index_rows df) \<and> (j, c2) \<in> set (index_rows df) \<and>
       finished env df c1 \<and> finished env df c2
       \<longrightarrow> ((i, keyed env df c1) \<in> set (index_rows (select_rows env df selected)) \<longleftrightarrow>
            (j, keyed env df c2) \<in> set (index_rows (select_rows env df selected)))) \<and>
      ((\<forall>c. isspace (lib env) c \<longrightarrow> \<not> isdigit (lib env) c) \<and>
       re_search_digits (lib env) (str_float (lib env) NaN) = None \<and>
       re_search_digits (lib env) (ustr ''None'') = None
       \<longrightarrow> fname env r1 = fname env r2 \<and>
           fname env r1 = n @ ustr ''.'' @ str_or_default env r1 (ustr ''ARMADOR'') [] @ ustr ''.pdf'' \<and>
           (renders env d (i, r1) \<and> renders env d (j, r2) \<longrightarrow>
              map fst (gerar_loop env d [] [(i, r1), (j, r2)]) = [fname env r1, fname env r1])))"
proof (intro impI)
  assume h: "re_search_digits (lib env) (py_str (lib env) (row_get r1 (ustr ''DEMANDA'') (PStr []))) = Some n \<and>
    re_search_digits (lib env) (py_str (lib env) (row_get r2 (ustr ''DEMANDA'') (PStr []))) = Some n \<and>
    row_get r1 (ustr ''ARMADOR'') (PStr []) = row_get r2 (ustr ''ARMADOR'') (PStr [])"
  have k: "make_key env r1 = make_key env r2"
    using h by (intro same_key) auto
  have sel: "(i, keyed env df c1) \<in> set (index_rows (select_rows env df selected)) \<longleftrightarrow>
             (j, keyed env df c2) \<in> set (index_rows (select_rows env df selected))"
    if "r1 = zip (columns df) c1" "r2 = zip (columns df) c2"
       "(i, c1) \<in> set (index_rows df)" "(j, c2) \<in> set (index_rows df)"
       "finished env df c1" "finished env df c2"
  proof -
    have "(i, keyed env df c1) \<in> set (index_rows (select_rows env df selected)) \<longleftrightarrow>
          (selected \<noteq> [] \<longrightarrow> make_key env r1 \<in> set selected)"
      using that by (auto simp: select_rows_mem keyed_def)
    moreover have "(j, keyed env df c2) \<in> set (index_rows (select_rows env df selected)) \<longleftrightarrow>
          (selected \<noteq> [] \<longrightarrow> make_key env r2 \<in> set selected)"
      using that by (auto simp: select_rows_mem keyed_def)
    ultimately show ?thesis using k by simp
  qed
  have f: "fname env r1 = fname env r2 \<and>
           fname env r1 = n @ ustr ''.'' @ str_or_default env r1 (ustr ''ARMADOR'') [] @ ustr ''.pdf''"
    if ws: "\<forall>c. isspace (lib env) c \<longrightarrow> \<not> isdigit (lib env) c"
      and nan: "re_search_digits (lib env) (str_float (lib env) NaN) = None"
      and none: "re_search_digits (lib env) (ustr ''None'') = None"
  proof -
    have "re_search_digits (lib env) (str_or_default env r1 (ustr ''DEMANDA'') []) = Some n"
      "re_search_digits (lib env) (str_or_default env r2 (ustr ''DEMANDA'') []) = Some n"
      using h ws nan none by (auto intro: demanda_num)
    moreover have "str_or_default env r1 (ustr ''ARMADOR'') [] = str_or_default env r2 (ustr ''ARMADOR'') []"
      using h by (intro same_armador) auto
    ultimately show ?thesis by (simp add: fname_def)
  qed
  have g: "map fst (gerar_loop env d [] [(i, r1), (j, r2)]) = [fname env r1, fname env r1]"
    if "fname env r1 = fname env r2" "renders env d (i, r1)" "renders env d (j, r2)"
    using that by (auto simp: gerar_loop_map renders_def split: sum.splits)
  show "make_key env r1 = make_key env r2 \<and>
      (make_key env r1 \<in> set selected \<longleftrightarrow> make_key env r2 \<in> set selected) \<and>
      (r1 = zip (columns df) c1 \<and> r2 = zip (columns df) c2 \<and>
       (i, c1) \<in> set (index_rows df) \<and> (j, c2) \<in> set (index_rows df) \<and>
       finished env df c1 \<and> finished env df c2
       \<longrightarrow> ((i, keyed env df c1) \<in> set (index_rows (select_rows env df selected)) \<longleftrightarrow>
            (j, keyed env df c2) \<in> set (index_rows (select_rows env df selected)))) \<and>
      ((\<forall>c. isspace (lib env) c \<longrightarrow> \<not> isdigit (lib env) c) \<and>
       re_search_digits (lib env) (str_float (lib env) NaN) = None \<and>
       re_search_digits (lib env) (ustr ''None'') = None
       \<longrightarrow> fname env r1 = fname env r2 \<and>
           fname env r1 = n @ ustr ''.'' @ str_or_default env r1 (ustr ''ARMADOR'') [] @ ustr ''.pdf'' \<and>
           (renders env d (i, r1) \<and> renders env d (j, r2) \<longrightarrow>
              map fst (gerar_loop env d [] [(i, r1), (j, r2)]) = [fname env r1, fname env r1]))"
  proof (intro conjI impI)
    show "make_key env r1 = make_key env r2" by (rule k)
    show "(make_key env r1 \<in> set selected) = (make_key env r2 \<in> set selected)"
      by (simp only: k)
  next
    assume "r1 = zip (columns df) c1 \<and> r2 = zip (columns df) c2 \<and>
       (i, c1) \<in> set (index_rows df) \<and> (j, c2) \<in> set (index_rows df) \<and>
       finished env df c1 \<and> finished env df c2"
    then show "((i, keyed env df c1) \<in> set (index_rows (select_rows env df selected))) =
               ((j, keyed env df c2) \<in> set (index_rows (select_rows env df selected)))"
      by (intro sel) simp_all
  next
    assume l: "(\<forall>c. isspace (lib env) c \<longrightarrow> \<not> isdigit (lib env) c) \<and>
       re_search_digits (lib env) (str_float (lib env) NaN) = None \<and>
       re_search_digits (lib env) (ustr ''None'') = None"
    have ff: "fname env r1 = fname env r2 \<and>
           fname env r1 = n @ ustr ''.'' @ str_or_default env r1 (ustr ''ARMADOR'') [] @ ustr ''.pdf''"
      using l by (intro f) simp_all
    show "fname env r1 = fname env r2" using ff by (rule conjunct1)
    show "fname env r1 = n @ ustr ''.'' @ str_or_default env r1 (ustr ''ARMADOR'') [] @ ustr ''.pdf''"
      using ff by (rule conjunct2)
    assume "renders env d (i, r1) \<and> renders env d (j, r2)"
    then show "map fst (gerar_loop env d [] [(i, r1), (j, r2)]) = [fname env r1, fname env r1]"
      using ff by (intro g) simp_all
  qed
qed

lemma prod_lista:
  "dict_get [(ustr ''CNTR_ORIGEM'', a), (ustr ''CNTR_TECADI'', b), (ustr ''SKU'', c),
             (ustr ''QTD'', q), (ustr ''LISTA'', l)] (ustr ''LISTA'') [] = l"
  by (simp add: dict_get_def ustr_def)

lemma gerar_pdf_row_Inl:
  "gerar_pdf_row env row d = Inl e \<longleftrightarrow>
   markup_error env (replace (replace (str_or_default env row (ustr ''LISTA'') [])
                       (ustr '' ;'') (ustr '';'')) (ustr ''  '') (ustr '' '')) = Some e"
  unfolding gerar_pdf_row_def draw_products_section_def Let_def prod_lista
  by (simp split: option.split)

lemma renders_iff:
  "renders env d r \<longleftrightarrow>
   markup_error env (replace (replace (str_or_default env (snd r) (ustr ''LISTA'') [])
                       (ustr '' ;'') (ustr '';'')) (ustr ''  '') (ustr '' '')) = None"
proof -
  let ?m = "markup_error env (replace (replace (str_or_default env (snd r) (ustr ''LISTA'') [])
                       (ustr '' ;'') (ustr '';'')) (ustr ''  '') (ustr '' ''))"
  show "renders env d r \<longleftrightarrow> ?m = None"
  proof (cases ?m)
    case None
    then have "gerar_pdf_row env (snd r) d \<noteq> Inl e" for e
      by (simp add: gerar_pdf_row_Inl)
    then show ?thesis using None
      by (cases "gerar_pdf_row env (snd r) d") (auto simp: renders_def)
  next
    case (Some e)
    then have "gerar_pdf_row env (snd r) d = Inl e"
      by (simp add: gerar_pdf_row_Inl)
    then show ?thesis using Some by (simp add: renders_def)
  qed
qed

lemmas eval_sample =
  sample_row_def sample_cells_def sample_columns_def sample_env_def sample_lib_def sample_floats_def
  ustr_def str_or_default_def strip_def re_search_digits_def row_get_def

lemma sample_renders:
  "renders sample_env d (i, sample_row dem sku ''3 cx; 2 pal'')"
  "renders sample_env d (i, sample_row dem sku ''1 cx'')"
  "\<not> renders sample_env d (i, sample_row dem sku ''1 <cx'')"
  by (simp_all add: renders_iff eval_sample)

theorem key_not_injective_witness:
  "make_key sample_env (sample_row ''DEM 1234'' (PStr (ustr ''A'')) ''1 cx'') =
     make_key sample_env (sample_row ''1234-B'' (PStr (ustr ''B'')) ''3 cx; 2 pal'') \<and>
   (1, keyed sample_env
         \<lparr>columns = sample_columns,
          index_rows = [(0, sample_cells ''DEM 1234'' (PStr (ustr ''A'')) ''1 cx''),
                        (1, sample_cells ''1234-B'' (PStr (ustr ''B'')) ''3 cx; 2 pal'')]\<rparr>
         (sample_cells ''1234-B'' (PStr (ustr ''B'')) ''3 cx; 2 pal''))
     \<in> set (index_rows (select_rows sample_env
         \<lparr>columns = sample_columns,
          index_rows = [(0, sample_cells ''DEM 1234'' (PStr (ustr ''A'')) ''1 cx''),
                        (1, sample_cells ''1234-B'' (PStr (ustr ''B'')) ''3 cx; 2 pal'')]\<rparr>
         [make_key sample_env (sample_row ''DEM 1234'' (PStr (ustr ''A'')) ''1 cx'')])) \<and>
   map fst (gerar_loop sample_env sample_date []
      [(0, sample_row ''DEM 1234'' (PStr (ustr ''A'')) ''1 cx''),
       (1, sample_row ''1234-B'' (PStr (ustr ''B'')) ''3 cx; 2 pal'')]) =
     [ustr ''1234.MAERSK.pdf'', ustr ''1234.MAERSK.pdf''] \<and>
   sample_row ''DEM 1234'' (PStr (ustr ''A'')) ''1 cx'' \<noteq> sample_row ''1234-B'' (PStr (ustr ''B'')) ''3 cx; 2 pal''"
proof -
  let ?c1 = "sample_cells ''DEM 1234'' (PStr (ustr ''A'')) ''1 cx''"
  let ?c2 = "sample_cells ''1234-B'' (PStr (ustr ''B'')) ''3 cx; 2 pal''"
  let ?r1 = "sample_row ''DEM 1234'' (PStr (ustr ''A'')) ''1 cx''"
  let ?r2 = "sample_row ''1234-B'' (PStr (ustr ''B'')) ''3 cx; 2 pal''"
  let ?df = "\<lparr>columns = sample_columns, index_rows = [(0, ?c1), (1, ?c2)]\<rparr>"
  let ?sel = "[make_key sample_env ?r1]"
  have a: "re_search_digits (lib sample_env) (py_str (lib sample_env) (row_get ?r1 (ustr ''DEMANDA'') (PStr [])))
             = Some (ustr ''1234'')"
    "re_search_digits (lib sample_env) (py_str (lib sample_env) (row_get ?r2 (ustr ''DEMANDA'') (PStr [])))
             = Some (ustr ''1234'')"
    "row_get ?r1 (ustr ''ARMADOR'') (PStr []) = row_get ?r2 (ustr ''ARMADOR'') (PStr [])"
    by (simp_all add: eval_sample)
  have l: "\<forall>c. isspace (lib sample_env) c \<longrightarrow> \<not> isdigit (lib sample_env) c"
    "re_search_digits (lib sample_env) (str_float (lib sample_env) NaN) = None"
    "re_search_digits (lib sample_env) (ustr ''None'') = None"
    by (auto simp: eval_sample)
  have t: "?r1 = zip (columns ?df) ?c1" "?r2 = zip (columns ?df) ?c2"
    "(0, ?c1) \<in> set (index_rows ?df)" "(1, ?c2) \<in> set (index_rows ?df)"
    by (simp_all add: sample_row_def)
  have fin: "finished sample_env ?df ?c1" "finished sample_env ?df ?c2"
    by (simp_all add: finished_def eval_sample)
  have s1: "(0, keyed sample_env ?df ?c1) \<in> set (index_rows (select_rows sample_env ?df ?sel))"
    unfolding select_rows_mem using fin(1) by (auto simp: sample_row_def)
  have f: "str_or_default sample_env ?r1 (ustr ''ARMADOR'') [] = ustr ''MAERSK''"
    by (simp add: eval_sample)
  have d: "?r1 \<noteq> ?r2" by (simp add: eval_sample)
  note k = key_not_injective [where env = sample_env and ?r1.0 = ?r1 and ?r2.0 = ?r2
      and n = "ustr ''1234''" and selected = ?sel and df = ?df and ?c1.0 = ?c1 and ?c2.0 = ?c2
      and i = 0 and j = 1 and d = sample_date, rule_format, OF conjI [OF a(1) conjI [OF a(2) a(3)]]]
  have k1: "make_key sample_env ?r1 = make_key sample_env ?r2"
    using k by (rule conjunct1)
  have k3: "(1, keyed sample_env ?df ?c2) \<in> set (index_rows (select_rows sample_env ?df ?sel))"
    using k [THEN conjunct2, THEN conjunct2, THEN conjunct1, rule_format] t fin s1 by blast
  note kf = k [THEN conjunct2, THEN conjunct2, THEN conjunct2, rule_format,
      OF conjI [OF l(1) conjI [OF l(2) l(3)]]]
  have n: "fname sample_env ?r1 = ustr ''1234.MAERSK.pdf''"
    unfolding kf [THEN conjunct2, THEN conjunct1] f by (simp add: ustr_def)
  have "map fst (gerar_loop sample_env sample_date [] [(0, ?r1), (1, ?r2)]) =
            [fname sample_env ?r1, fname sample_env ?r1]"
    using kf [THEN conjunct2, THEN conjunct2] sample_renders by blast
  then have k4: "map fst (gerar_loop sample_env sample_date [] [(0, ?r1), (1, ?r2)]) =
            [ustr ''1234.MAERSK.pdf'', ustr ''1234.MAERSK.pdf'']"
    by (simp only: n)
  show ?thesis using k1 k3 k4 d by blast
qed

section \<open>The batch\<close>

text \<open>
  C6. The archive gets exactly one entry for every selected record, in the order of the
  records: the document under the record's name when the record renders, and an error
  marker named after the record's index when generation raises. So the archive holds
  as many documents as there are records that render and as many error markers as there
  are records that fail; no failure stops the loop and no document is lost.
\<close>

theorem batch_isolation:
  "length (gerar_loop env d [] rs) = length rs \<and>
   (\<forall>k < length rs.
      (\<forall>pdf. gerar_pdf_row env (snd (rs ! k)) d = Inr pdf \<longrightarrow>
         gerar_loop env d [] rs ! k = (fname env (snd (rs ! k)), Pdf pdf)) \<and>
      (\<forall>e. gerar_pdf_row env (snd (rs ! k)) d = Inl e \<longrightarrow>
         gerar_loop env d [] rs ! k =
           (ustr ''ERRO_'' @ str_nat (fst (rs ! k)) @ ustr ''.txt'',
            Text (ustr ''Falha na linha '' @ str_nat (fst (rs ! k)) @ ustr '': '' @ err_repr e)))) \<and>
   length (filter is_pdf (gerar_loop env d [] rs)) = length (filter (renders env d) rs) \<and>
   length (filter (\<lambda>x. \<not> is_pdf x) (gerar_loop env d [] rs)) =
     length (filter (\<lambda>r. \<not> renders env d r) rs)"
proof -
  let ?entry = "\<lambda>(i, row).
      case gerar_pdf_row env row d of
        Inr pdf_bytes \<Rightarrow> (fname env row, Pdf pdf_bytes)
      | Inl e \<Rightarrow> (ustr ''ERRO_'' @ str_nat i @ ustr ''.txt'',
                  Text (ustr ''Falha na linha '' @ str_nat i @ ustr '': '' @ err_repr e))"
  have m: "gerar_loop env d [] rs = map ?entry rs"
    by (simp add: gerar_loop_map)
  have p: "is_pdf (?entry r) = renders env d r" for r
    by (cases r; cases "gerar_pdf_row env (snd r) d") (simp_all add: renders_def)
  have "filter is_pdf (map ?entry rs) = map ?entry (filter (renders env d) rs)"
    by (simp add: filter_map comp_def p)
  then have c1: "length (filter is_pdf (gerar_loop env d [] rs)) = length (filter (renders env d) rs)"
    by (simp add: m)
  have "filter (\<lambda>x. \<not> is_pdf x) (map ?entry rs) = map ?entry (filter (\<lambda>r. \<not> renders env d r) rs)"
    by (simp add: filter_map comp_def p)
  then have c2: "length (filter (\<lambda>x. \<not> is_pdf x) (gerar_loop env d [] rs)) =
     length (filter (\<lambda>r. \<not> renders env d r) rs)"
    by (simp add: m)
  have e: "\<forall>k < length rs.
      (\<forall>pdf. gerar_pdf_row env (snd (rs ! k)) d = Inr pdf \<longrightarrow>
         gerar_loop env d [] rs ! k = (fname env (snd (rs ! k)), Pdf pdf)) \<and>
      (\<forall>e. gerar_pdf_row env (snd (rs ! k)) d = Inl e \<longrightarrow>
         gerar_loop env d [] rs ! k =
           (ustr ''ERRO_'' @ str_nat (fst (rs ! k)) @ ustr ''.txt'',
            Text (ustr ''Falha na linha '' @ str_nat (fst (rs ! k)) @ ustr '': '' @ err_repr e)))"
    by (simp add: m split_beta)
  show ?thesis using c1 c2 e by (simp add: m)
qed

theorem batch_isolation_witness:
  "length (filter is_pdf (gerar_loop sample_env sample_date []
      [(0, sample_row ''1001'' (PStr (ustr ''A'')) ''1 cx''),
       (1, sample_row ''1002'' (PStr (ustr ''B'')) ''1 <cx''),
       (2, sample_row ''1003'' (PStr (ustr ''C'')) ''3 cx; 2 pal'')])) = 2 \<and>
   length (filter (\<lambda>x. \<not> is_pdf x) (gerar_loop sample_env sample_date []
      [(0, sample_row ''1001'' (PStr (ustr ''A'')) ''1 cx''),
       (1, sample_row ''1002'' (PStr (ustr ''B'')) ''1 <cx''),
       (2, sample_row ''1003'' (PStr (ustr ''C'')) ''3 cx; 2 pal'')])) = 1 \<and>
   gerar_loop sample_env sample_date []
      [(0, sample_row ''1001'' (PStr (ustr ''A'')) ''1 cx''),
       (1, sample_row ''1002'' (PStr (ustr ''B'')) ''1 <cx''),
       (2, sample_row ''1003'' (PStr (ustr ''C'')) ''3 cx; 2 pal'')] ! 1 =
     (ustr ''ERRO_1.txt'', Text (ustr ''Falha na linha 1: '' @ err_repr sample_error))"
proof -
  let ?rs = "[(0, sample_row ''1001'' (PStr (ustr ''A'')) ''1 cx''),
       (1, sample_row ''1002'' (PStr (ustr ''B'')) ''1 <cx''),
       (2, sample_row ''1003'' (PStr (ustr ''C'')) ''3 cx; 2 pal'')]"
  have bad: "gerar_pdf_row sample_env (sample_row ''1002'' (PStr (ustr ''B'')) ''1 <cx'') sample_date
      = Inl sample_error"
    by (simp add: gerar_pdf_row_Inl eval_sample)
  have one: "str_nat 1 = ustr ''1''" by (simp add: str_nat.simps ustr_def)
  note b = batch_isolation [of sample_env sample_date ?rs]
  have "length (filter is_pdf (gerar_loop sample_env sample_date [] ?rs)) = 2"
    using b sample_renders by simp
  moreover have "length (filter (\<lambda>x. \<not> is_pdf x) (gerar_loop sample_env sample_date [] ?rs)) = 1"
    using b sample_renders by simp
  moreover have "gerar_loop sample_env sample_date [] ?rs ! 1 =
     (ustr ''ERRO_1.txt'', Text (ustr ''Falha na linha 1: '' @ err_repr sample_error))"
    using b [THEN conjunct2, THEN conjunct1, rule_format, of 1] bad one
    by (simp add: ustr_def del: gerar_loop.simps)
  ultimately show ?thesis by simp
qed

section \<open>Refreshing the table\<close>

lemma download_fails:
  assumes "\<forall>u r. http_get env u = Inr r \<longrightarrow> \<not> usable r"
  shows "\<exists>e. onedrive_direct_download env url = Inl e"
proof -
  have "onedrive_direct_download env url \<noteq> Inr b" for b
    using assms
    by (auto simp: onedrive_direct_download_def Let_def split: sum.splits if_splits)
  then show ?thesis by (cases "onedrive_direct_download env url") auto
qed

text \<open>
  C8, as the code has it. When neither the direct request nor the fallback request
  gives a usable answer, the download raises; the refresh handler catches it, resets the
  cached table to none and stores the text of the error, and leaves the selection as it
  was. A refresh that succeeds replaces the table and clears the error.
\<close>

theorem failed_refresh_resets_table:
  "((\<forall>u r. http_get env u = Inr r \<longrightarrow> \<not> usable r) \<longrightarrow>
      (\<exists>e. onedrive_direct_download env ONEDRIVE_LINK = Inl e)) \<and>
   (onedrive_direct_download env ONEDRIVE_LINK = Inl e \<longrightarrow>
      df_cache (bt_atualizar env st) = None \<and>
      fetch_error (bt_atualizar env st) = Some (err_str e) \<and>
      selected_keys (bt_atualizar env st) = selected_keys st) \<and>
   (onedrive_direct_download env ONEDRIVE_LINK = Inr b \<and> load_excel_from_bytes env b = Inr df \<longrightarrow>
      df_cache (bt_atualizar env st) = Some df \<and>
      fetch_error (bt_atualizar env st) = None \<and>
      selected_keys (bt_atualizar env st) = selected_keys st)"
  using download_fails [of env ONEDRIVE_LINK] by (simp add: bt_atualizar_def)

lemma sample_download: "onedrive_direct_download sample_env ONEDRIVE_LINK = Inl download_error"
  by (simp add: onedrive_direct_download_def sample_env_def usable_def Let_def)

theorem failed_refresh_resets_table_witness:
  "df_cache (bt_atualizar sample_env (sample_state [sample_cells ''1001'' (PStr (ustr ''A'')) ''1 cx''])) = None \<and>
   fetch_error (bt_atualizar sample_env (sample_state [sample_cells ''1001'' (PStr (ustr ''A'')) ''1 cx'']))
     = Some (err_str download_error)"
  using failed_refresh_resets_table
     [of sample_env download_error "sample_state [sample_cells ''1001'' (PStr (ustr ''A'')) ''1 cx'']",
      THEN conjunct2, THEN conjunct1] sample_download
  by simp

theorem failed_refresh_keeps_table_counterexample:
  "df_cache (sample_state [sample_cells ''1001'' (PStr (ustr ''A'')) ''1 cx'']) \<noteq> None \<and>
   onedrive_direct_download sample_env ONEDRIVE_LINK = Inl download_error \<and>
   df_cache (bt_atualizar sample_env (sample_state [sample_cells ''1001'' (PStr (ustr ''A'')) ''1 cx'']))
     \<noteq> df_cache (sample_state [sample_cells ''1001'' (PStr (ustr ''A'')) ''1 cx''])"
  by (simp add: bt_atualizar_def sample_download sample_state_def)

section \<open>The gate before generation\<close>














section \<open>Section chaining\<close>

lemma draw_rows_rects:
  "filter is_round_rect (fst (draw_rows c y rs)) = filter is_round_rect c"
  by (induction rs arbitrary: c y) auto

lemma info_height: "1.1 * cm + 0.5 * cm + GAP_AFTER_INFO_TITLE + 6 * STEP_Y + 0.6 * cm = spec_info_height 6"
  by (simp add: spec_info_height_def)

lemma draw_info_section_rects:
  "filter is_round_rect (fst (draw_info_section c info page_w page_h)) =
     filter is_round_rect c @
     [RoundRect MARGIN_L (page_h - 6.1 * cm - spec_info_height 6) (page_w - MARGIN_L - MARGIN_R)
        (spec_info_height 6) ROUND_R]"
  unfolding draw_info_section_def Let_def info_height
  by (simp add: draw_rows_rects)

lemma draw_info_section_next:
  "snd (draw_info_section c info page_w page_h) = page_h - 6.1 * cm - spec_info_height 6 - 0.9 * cm"
  unfolding draw_info_section_def Let_def info_height by simp

lemma draw_products_section_rects:
  assumes "draw_products_section env c pinfo start_y page_w = Inr c'"
  shows "\<exists>h. filter is_round_rect c' =
     filter is_round_rect c @ [RoundRect MARGIN_L (start_y - h) (page_w - MARGIN_L - MARGIN_R) h ROUND_R]"
proof -
  let ?h = "1.0 * cm + 0.5 * cm + GAP_AFTER_FAST_TITLE + 4 * STEP_Y + 0.35 * cm + 5.0 * cm + 0.6 * cm"
  have "filter is_round_rect c' =
     filter is_round_rect c @ [RoundRect MARGIN_L (start_y - ?h) (page_w - MARGIN_L - MARGIN_R) ?h ROUND_R]"
    using assms unfolding draw_products_section_def Let_def
    by (auto simp: draw_rows_rects split: option.splits)
  then show ?thesis by blast
qed

lemma draw_header_rects:
  "\<exists>box. filter is_round_rect (draw_header env [] d page_w page_h) = [box]"
  by (simp add: draw_header_def Let_def)

text \<open>
  C5. The height of the info section is the formula of the specification at six rows,
  and the formula grows by exactly one row step, a positive length, with every row
  added. The value the info section returns is its bottom edge less 0.9 cm, and the
  composer hands it to the product section as its start: on a page that renders, the
  rectangles are the box of the header, the info rectangle, and the product rectangle
  whose top edge is the bottom edge of the info rectangle less 0.9 cm.
\<close>

theorem section_chaining:
  "spec_info_height (Suc n) - spec_info_height n = STEP_Y \<and> 0 < STEP_Y \<and>
   snd (draw_info_section c info page_w page_h) =
     page_h - 6.1 * cm - spec_info_height 6 - 0.9 * cm \<and>
   filter is_round_rect (fst (draw_info_section [] info page_w page_h)) =
     [RoundRect MARGIN_L (page_h - 6.1 * cm - spec_info_height 6) (page_w - MARGIN_L - MARGIN_R)
        (spec_info_height 6) ROUND_R] \<and>
   (gerar_pdf_row env row d = Inr pdf \<longrightarrow>
      (\<exists>box h. filter is_round_rect pdf =
         [box,
          RoundRect MARGIN_L (snd A4 - 6.1 * cm - spec_info_height 6) (fst A4 - MARGIN_L - MARGIN_R)
            (spec_info_height 6) ROUND_R,
          RoundRect MARGIN_L (snd A4 - 6.1 * cm - spec_info_height 6 - 0.9 * cm - h)
            (fst A4 - MARGIN_L - MARGIN_R) h ROUND_R]))"
proof (intro conjI impI)
  show "spec_info_height (Suc n) - spec_info_height n = STEP_Y"
    by (simp add: spec_info_height_def algebra_simps)
  show "0 < STEP_Y" by (simp add: STEP_Y_def cm_def)
  show "snd (draw_info_section c info page_w page_h) =
     page_h - 6.1 * cm - spec_info_height 6 - 0.9 * cm"
    by (rule draw_info_section_next)
  show "filter is_round_rect (fst (draw_info_section [] info page_w page_h)) =
     [RoundRect MARGIN_L (page_h - 6.1 * cm - spec_info_height 6) (page_w - MARGIN_L - MARGIN_R)
        (spec_info_height 6) ROUND_R]"
    by (simp add: draw_info_section_rects)
next
  assume g: "gerar_pdf_row env row d = Inr pdf"
  define hd_c where "hd_c = draw_header env [] d (fst A4) (snd A4)"
  define info where "info = [(ustr ''DATA'', strftime_dmY d),
                  (ustr ''CONTEUDO'', CONTEUDO_FIXO),
                  (ustr ''CLIENTE'', CLIENTE_FIXO),
                  (ustr ''TRANSPORTADORA'', str_or_default env row (ustr ''TRANSPORTADORA'') []),
                  (ustr ''MOTORISTA'', str_or_default env row (ustr ''NOME'') []),
                  (ustr ''PLACA'', str_or_default env row (ustr ''PLACA'') [])]"
  define pinfo where "pinfo = [(ustr ''CNTR_ORIGEM'', str_or_default env row (ustr ''ARMADOR'') []),
                  (ustr ''CNTR_TECADI'', str_or_default env row (ustr ''TECADI'') []),
                  (ustr ''SKU'', str_or_default env row (ustr ''SKU'') []),
                  (ustr ''QTD'', format_qtd env (PStr (str_or_default env row (ustr ''QTD'') []))),
                  (ustr ''LISTA'', str_or_default env row (ustr ''LISTA'') [])]"
  define ic where "ic = fst (draw_info_section hd_c info (fst A4) (snd A4))"
  define next_y where "next_y = snd (draw_info_section hd_c info (fst A4) (snd A4))"
  have unf: "gerar_pdf_row env row d =
      (case draw_products_section env ic pinfo next_y (fst A4) of
         Inl e \<Rightarrow> Inl e | Inr c \<Rightarrow> Inr (c @ [ShowPage, Save]))"
    by (simp add: gerar_pdf_row_def Let_def hd_c_def info_def pinfo_def ic_def next_y_def)
  then obtain pc where pc: "draw_products_section env ic pinfo next_y (fst A4) = Inr pc"
    "pdf = pc @ [ShowPage, Save]"
    using g by (cases "draw_products_section env ic pinfo next_y (fst A4)") auto
  obtain h where h: "filter is_round_rect pc =
     filter is_round_rect ic @ [RoundRect MARGIN_L (next_y - h) (fst A4 - MARGIN_L - MARGIN_R) h ROUND_R]"
    using draw_products_section_rects [OF pc(1)] by blast
  obtain box where box: "filter is_round_rect hd_c = [box]"
    using draw_header_rects [of env d "fst A4" "snd A4"] by (auto simp: hd_c_def)
  have ny: "next_y = snd A4 - 6.1 * cm - spec_info_height 6 - 0.9 * cm"
    by (simp add: next_y_def draw_info_section_next)
  have "filter is_round_rect pdf =
         [box,
          RoundRect MARGIN_L (snd A4 - 6.1 * cm - spec_info_height 6) (fst A4 - MARGIN_L - MARGIN_R)
            (spec_info_height 6) ROUND_R,
          RoundRect MARGIN_L (snd A4 - 6.1 * cm - spec_info_height 6 - 0.9 * cm - h)
            (fst A4 - MARGIN_L - MARGIN_R) h ROUND_R]"
    by (simp add: pc(2) h ic_def draw_info_section_rects box ny)
  then show "\<exists>box h. filter is_round_rect pdf =
         [box,
          RoundRect MARGIN_L (snd A4 - 6.1 * cm - spec_info_height 6) (fst A4 - MARGIN_L - MARGIN_R)
            (spec_info_height 6) ROUND_R,
          RoundRect MARGIN_L (snd A4 - 6.1 * cm - spec_info_height 6 - 0.9 * cm - h)
            (fst A4 - MARGIN_L - MARGIN_R) h ROUND_R]"
    by blast
qed

theorem section_chaining_witness:
  "spec_info_height 6 = 8.5 * cm \<and>
   (\<exists>pdf box h.
      gerar_pdf_row sample_env (sample_row ''1001'' (PStr (ustr ''A'')) ''1 cx'') sample_date = Inr pdf \<and>
      filter is_round_rect pdf =
         [box,
          RoundRect MARGIN_L (snd A4 - 6.1 * cm - spec_info_height 6) (fst A4 - MARGIN_L - MARGIN_R)
            (spec_info_height 6) ROUND_R,
          RoundRect MARGIN_L (snd A4 - 6.1 * cm - spec_info_height 6 - 0.9 * cm - h)
            (fst A4 - MARGIN_L - MARGIN_R) h ROUND_R])"
proof -
  have "renders sample_env sample_date (0, sample_row ''1001'' (PStr (ustr ''A'')) ''1 cx'')"
    by (rule sample_renders)
  then obtain pdf where pdf:
    "gerar_pdf_row sample_env (sample_row ''1001'' (PStr (ustr ''A'')) ''1 cx'') sample_date = Inr pdf"
    by (cases "gerar_pdf_row sample_env (sample_row ''1001'' (PStr (ustr ''A'')) ''1 cx'') sample_date")
       (simp_all add: renders_def)
  have "spec_info_height 6 = 8.5 * cm"
    by (simp add: spec_info_height_def GAP_AFTER_INFO_TITLE_def STEP_Y_def)
  then show ?thesis
    using section_chaining [of _ _ _ _ _ sample_env "sample_row ''1001'' (PStr (ustr ''A'')) ''1 cx''"
        sample_date pdf, THEN conjunct2, THEN conjunct2, THEN conjunct2, THEN conjunct2] pdf
    by blast
qed

end
